theory Spec2Isabelle
  imports Main "HOL-Library.Sublist"
begin

section \<open>JavaScript values used by the pipeline\<close>

text \<open>
  A cell of a result array as the host language sees it: \<open>undefined\<close>, \<open>null\<close> or a
  value. Reading an array past its end gives \<open>undefined\<close>.
\<close>

datatype 'a cell = Undefined | Null | Val 'a

definition at_index :: "'a cell list \<Rightarrow> nat \<Rightarrow> 'a cell" where
  \<comment> \<open>\<open>arr[i]\<close>\<close>
  "at_index arr i = (if i < length arr then arr ! i else Undefined)"

definition nullish_to_null :: "'a cell \<Rightarrow> 'a cell" where
  \<comment> \<open>\<open>x ?? null\<close>\<close>
  "nullish_to_null x = (case x of Undefined \<Rightarrow> Null | Null \<Rightarrow> Null | Val v \<Rightarrow> Val v)"

definition falsy :: "string cell \<Rightarrow> bool" where
  \<comment> \<open>\<open>!geomJson\<close> for a cell typed \<open>string | null\<close>\<close>
  "falsy x = (case x of Undefined \<Rightarrow> True | Null \<Rightarrow> True | Val s \<Rightarrow> s = [])"

definition text_of :: "string cell \<Rightarrow> string" where
  "text_of x = (case x of Val s \<Rightarrow> s | _ \<Rightarrow> [])"

definition or_empty :: "'a list option \<Rightarrow> 'a list" where
  \<comment> \<open>\<open>child?.toArray() || []\<close>: an absent child gives the empty array\<close>
  "or_empty child = (case child of None \<Rightarrow> [] | Some arr \<Rightarrow> arr)"

definition str_at_or_empty :: "string list \<Rightarrow> nat \<Rightarrow> string" where
  \<comment> \<open>\<open>dataTypes[i] || ''\<close>\<close>
  "str_at_or_empty arr i = (if i < length arr then arr ! i else [])"

text \<open>
  Case conversion on the ASCII letters; every other character is left as it is. Strings
  are lists of 8-bit characters here, so column names and type names outside ASCII,
  which the host language would convert by the Unicode tables, are outside the model.
\<close>

definition lower_char :: "char \<Rightarrow> char" where
  "lower_char c = (let n = (of_char c :: nat) in if 65 \<le> n \<and> n \<le> 90 then char_of (n + 32) else c)"

definition upper_char :: "char \<Rightarrow> char" where
  "upper_char c = (let n = (of_char c :: nat) in if 97 \<le> n \<and> n \<le> 122 then char_of (n - 32) else c)"

definition toLowerCase :: "string \<Rightarrow> string" where
  "toLowerCase s = map lower_char s"

definition toUpperCase :: "string \<Rightarrow> string" where
  "toUpperCase s = map upper_char s"

fun includes_str :: "string \<Rightarrow> string \<Rightarrow> bool" where
  \<comment> \<open>\<open>s.includes(sub)\<close>: \<open>sub\<close> occurs in \<open>s\<close> at some position\<close>
  "includes_str [] sub = (sub = [])"
| "includes_str (c # cs) sub = (prefix sub (c # cs) \<or> includes_str cs sub)"

fun show_nat :: "nat \<Rightarrow> string" where
  "show_nat n = (if n < 10 then [char_of (48 + n)]
                 else show_nat (n div 10) @ [char_of (48 + n mod 10)])"

definition show_int :: "int \<Rightarrow> string" where
  \<comment> \<open>a number interpolated into a template literal; the bounds are taken to be
      integers, as the filter range of the specification is, of a size the host language
      prints with all its digits\<close>
  "show_int k = (if k < 0 then ''-'' @ show_nat (nat (- k)) else show_nat (nat k))"

definition dq :: char where
  "dq = CHR 0x22"

definition sq :: char where
  "sq = CHR 0x27"

definition nl :: char where
  "nl = CHR 0x0A"

definition indent :: "nat \<Rightarrow> string" where
  "indent k = replicate k CHR '' ''"

section \<open>Schema discovery and column roles\<close>

record column =
  name :: string
  type :: string

definition schema_of :: "string list \<Rightarrow> string list \<Rightarrow> column list" where
  \<comment> \<open>\<open>columnNames.map((n, i) => ({ name: n.toLowerCase(), type: (dataTypes[i] || '').toUpperCase() }))\<close>\<close>
  "schema_of columnNames dataTypes =
     map (\<lambda>(i, n). \<lparr>name = toLowerCase n, type = toUpperCase (str_at_or_empty dataTypes i)\<rparr>)
         (enumerate 0 columnNames)"

definition findCol :: "string list \<Rightarrow> column list \<Rightarrow> column option" where
  \<comment> \<open>\<open>schema.find(c => cands.includes(c.name))\<close>\<close>
  "findCol cands schema = find (\<lambda>c. name c \<in> set cands) schema"

definition geomCands :: "string list" where
  "geomCands = [''geometry'', ''geom'', ''wkb_geometry'', ''wkb'', ''the_geom'']"

definition classCands :: "string list" where
  "classCands = [''class'', ''class_id'', ''classval'', ''class_val'', ''cls'', ''value'', ''category'']"

definition name_or :: "column option \<Rightarrow> string \<Rightarrow> string" where
  \<comment> \<open>\<open>cand?.name || dflt\<close>\<close>
  "name_or cand dflt = (case cand of None \<Rightarrow> dflt | Some c \<Rightarrow> if name c = [] then dflt else name c)"

definition type_or :: "column option \<Rightarrow> string \<Rightarrow> string" where
  \<comment> \<open>\<open>cand?.type || dflt\<close>\<close>
  "type_or cand dflt = (case cand of None \<Rightarrow> dflt | Some c \<Rightarrow> if type c = [] then dflt else type c)"

definition geomCol :: "column list \<Rightarrow> string" where
  "geomCol schema = name_or (findCol geomCands schema) ''geometry''"

definition geomType :: "column list \<Rightarrow> string" where
  "geomType schema = type_or (findCol geomCands schema) []"

definition classCol :: "column list \<Rightarrow> string" where
  "classCol schema = name_or (findCol classCands schema) ''class''"

section \<open>Query text\<close>

definition geomExpr :: "column list \<Rightarrow> string" where
  "geomExpr schema =
     (if includes_str (geomType schema) ''BLOB'' \<or> includes_str (geomCol schema) ''wkb''
      then ''ST_GeomFromWKB('' @ [dq] @ geomCol schema @ [dq] @ '')''
      else ''TRY_CAST('' @ [dq] @ geomCol schema @ [dq] @ '' AS GEOMETRY)'')"

definition classExpr :: "column list \<Rightarrow> string" where
  "classExpr schema = ''TRY_CAST('' @ [dq] @ classCol schema @ [dq] @ '' AS INT)''"

definition PARQUET_URL :: string where
  "PARQUET_URL = ''https://storage.googleapis.com/coplac/classified_polygons.geoparquet''"

definition setup_statements :: "string list" where
  "setup_statements =
     [''INSTALL httpfs;'', ''LOAD httpfs;'', ''INSTALL spatial;'', ''LOAD spatial;'',
      ''SET enable_http_metadata_cache=true;'',
      ''CREATE OR REPLACE VIEW gp AS SELECT * FROM read_parquet('' @ [sq] @ PARQUET_URL @ [sq] @ '');'']"

definition columns_sql :: string where
  "columns_sql =
     [nl] @ indent 10 @ ''SELECT column_name, data_type'' @
     [nl] @ indent 10 @ ''FROM information_schema.columns'' @
     [nl] @ indent 10 @ ''WHERE table_name = '' @ [sq] @ ''gp'' @ [sq] @
     [nl] @ indent 8"

definition sql_text :: "string \<Rightarrow> string \<Rightarrow> int \<Rightarrow> int \<Rightarrow> string" where
  "sql_text gexpr cexpr minVal maxVal =
     [nl] @ indent 10 @ ''WITH base AS ('' @
     [nl] @ indent 12 @ ''SELECT ST_AsGeoJSON('' @ gexpr @ '') AS geojson, '' @ cexpr @ '' AS class_val'' @
     [nl] @ indent 12 @ ''FROM gp'' @
     [nl] @ indent 10 @ '')'' @
     [nl] @ indent 10 @ ''SELECT geojson, class_val'' @
     [nl] @ indent 10 @ ''FROM base'' @
     [nl] @ indent 10 @ ''WHERE geojson IS NOT NULL'' @
     [nl] @ indent 12 @ ''AND (class_val IS NULL OR (class_val BETWEEN '' @ show_int minVal @
        '' AND '' @ show_int maxVal @ ''))'' @
     [nl] @ indent 8"

section \<open>The query engine as the pipeline sees it\<close>

text \<open>
  The result of the main query as the code reads it: the arrays that \<open>toArray()\<close>
  gives for the children \<open>geojson\<close> and \<open>class_val\<close>, each absent when the result has
  no such child.
\<close>

record result_table =
  geojson_child :: "string cell list option"
  class_val_child :: "int cell list option"

text \<open>
  What the engine answers during one run: whether \<open>connect\<close> and \<open>close\<close> succeed,
  which statements succeed, the two children of the information-schema result (absent
  when the result has no such column; \<open>None\<close> for the whole when the query throws), and
  the result of the main query for the text it is sent (\<open>None\<close> when the query throws,
  for example on a missing column). The code hands the engine text and nothing else.
\<close>

record engine =
  connect_ok :: bool
  stmt_ok :: "string \<Rightarrow> bool"
  columns :: "(string list option \<times> string list option) option"
  select :: "string \<Rightarrow> result_table option"
  close_ok :: bool

datatype error = ConnectFailed | QueryFailed string | SyntaxError string | CloseFailed

datatype event = Connect | Query string | Close

section \<open>The pipeline run\<close>

record 'g feature =
  geometry :: 'g
  class_val :: "int cell"

fun exec_all :: "engine \<Rightarrow> string list \<Rightarrow> error option \<times> event list" where
  "exec_all eng [] = (None, [])"
| "exec_all eng (s # ss) =
     (if stmt_ok eng s
      then (case exec_all eng ss of (r, tr) \<Rightarrow> (r, Query s # tr))
      else (Some (QueryFailed s), [Query s]))"

definition run_queries :: "engine \<Rightarrow> int \<Rightarrow> int \<Rightarrow> (error + result_table) \<times> event list" where
  "run_queries eng minVal maxVal =
     (case exec_all eng setup_statements of
        (Some e, tr) \<Rightarrow> (Inl e, tr)
      | (None, tr) \<Rightarrow>
          (case columns eng of
             None \<Rightarrow> (Inl (QueryFailed columns_sql), tr @ [Query columns_sql])
           | Some colsRes \<Rightarrow>
               (let columnNames = or_empty (fst colsRes);
                    dataTypes = or_empty (snd colsRes);
                    schema = schema_of columnNames dataTypes;
                    sql = sql_text (geomExpr schema) (classExpr schema) minVal maxVal
                in case select eng sql of
                     None \<Rightarrow> (Inl (QueryFailed sql), tr @ [Query columns_sql, Query sql])
                   | Some res \<Rightarrow> (Inr res, tr @ [Query columns_sql, Query sql]))))"

function for_loop ::
  "(string \<Rightarrow> 'g option) \<Rightarrow> string cell list \<Rightarrow> int cell list \<Rightarrow> nat \<Rightarrow> 'g feature list
     \<Rightarrow> error + 'g feature list" where
  "for_loop parse geojsonArr classArr i features =
     (if i < length geojsonArr then
        (if falsy (geojsonArr ! i) then for_loop parse geojsonArr classArr (Suc i) features
         else (case parse (text_of (geojsonArr ! i)) of
                 None \<Rightarrow> Inl (SyntaxError (text_of (geojsonArr ! i)))
               | Some g \<Rightarrow>
                   for_loop parse geojsonArr classArr (Suc i)
                     (features @ [\<lparr>geometry = g, class_val = nullish_to_null (at_index classArr i)\<rparr>])))
      else Inr features)"
  by pat_completeness auto
termination
  by (relation "measure (\<lambda>(parse, geojsonArr, classArr, i, features). length geojsonArr - i)") auto

declare for_loop.simps [simp del]

definition materialize :: "(string \<Rightarrow> 'g option) \<Rightarrow> result_table \<Rightarrow> error + 'g feature list" where
  "materialize parse res =
     (let geojsonArr = or_empty (geojson_child res);
          classArr = or_empty (class_val_child res)
      in for_loop parse geojsonArr classArr 0 [])"

definition try_block ::
  "(string \<Rightarrow> 'g option) \<Rightarrow> engine \<Rightarrow> int \<Rightarrow> int \<Rightarrow> (error + 'g feature list) \<times> event list" where
  "try_block parse eng minVal maxVal =
     (case run_queries eng minVal maxVal of
        (Inl e, tr) \<Rightarrow> (Inl e, tr)
      | (Inr res, tr) \<Rightarrow> (materialize parse res, tr))"

record 'g app =
  db :: "engine option"
  data :: "'g feature list option"
  minClass :: int
  maxClass :: int
  status :: string

definition loadData_start :: "'g app \<Rightarrow> 'g app" where
  \<comment> \<open>the synchronous part of a run, up to the first \<open>await\<close>\<close>
  "loadData_start st = st\<lparr>status := ''Querying parquet via HTTP...''\<rparr>"

definition loadData_settle ::
  "(string \<Rightarrow> 'g option) \<Rightarrow> engine \<Rightarrow> int \<Rightarrow> int \<Rightarrow> 'g app \<Rightarrow> 'g app \<times> event list \<times> error option" where
  \<comment> \<open>the rest of the run, applied to the state the component has when the run resumes;
      an exception thrown by \<open>close\<close> in the \<open>finally\<close> block replaces the one of the body\<close>
  "loadData_settle parse eng minVal maxVal st =
     (if \<not> connect_ok eng then (st, [], Some ConnectFailed)
      else (case try_block parse eng minVal maxVal of
              (Inr features, tr) \<Rightarrow>
                (st\<lparr>data := Some features,
                    status := ''Loaded '' @ show_nat (length features) @ '' features''\<rparr>,
                 Connect # tr @ [Close],
                 if close_ok eng then None else Some CloseFailed)
            | (Inl e, tr) \<Rightarrow>
                (st, Connect # tr @ [Close], Some (if close_ok eng then e else CloseFailed))))"

definition loadData ::
  "(string \<Rightarrow> 'g option) \<Rightarrow> engine \<Rightarrow> int \<Rightarrow> int \<Rightarrow> 'g app \<Rightarrow> 'g app \<times> event list \<times> error option" where
  "loadData parse eng minVal maxVal st = loadData_settle parse eng minVal maxVal (loadData_start st)"

text \<open>
  The features a run appends, index by index: the indices of the geometry array whose
  cell is not skipped, and the feature built at such an index.
\<close>

definition kept_indices :: "string cell list \<Rightarrow> nat \<Rightarrow> nat list" where
  "kept_indices geojsonArr i = filter (\<lambda>j. \<not> falsy (geojsonArr ! j)) [i..<length geojsonArr]"

definition feature_at :: "(string \<Rightarrow> 'g option) \<Rightarrow> string cell list \<Rightarrow> int cell list \<Rightarrow> nat \<Rightarrow> 'g feature" where
  "feature_at parse geojsonArr classArr j =
     \<lparr>geometry = the (parse (text_of (geojsonArr ! j))),
      class_val = nullish_to_null (at_index classArr j)\<rparr>"

definition discovered_schema :: "engine \<Rightarrow> column list" where
  \<comment> \<open>the schema a run computes from the information-schema answer\<close>
  "discovered_schema eng =
     (case columns eng of
        None \<Rightarrow> []
      | Some colsRes \<Rightarrow> schema_of (or_empty (fst colsRes)) (or_empty (snd colsRes)))"

definition materialized :: "(string \<Rightarrow> 'g option) \<Rightarrow> engine \<Rightarrow> int \<Rightarrow> int \<Rightarrow> 'g feature list option" where
  \<comment> \<open>the collection a run hands to \<open>setData\<close>, if it gets that far\<close>
  "materialized parse eng minVal maxVal =
     (if connect_ok eng
      then (case fst (try_block parse eng minVal maxVal) of Inl e \<Rightarrow> None | Inr features \<Rightarrow> Some features)
      else None)"

section \<open>The meaning of the main query\<close>

text \<open>
  What the main query means to the engine. The code only builds the text; evaluating it
  is the engine's work. The definitions below state the meaning of that text, and the
  theorems about which rows are rendered assume that the engine answers the text by it.

  A row of the common table expression \<open>base\<close> has a textual geometry, \<open>NULL\<close> or a
  text, and a 32-bit integer attribute. The attribute column reaches the code as the
  column's value buffer: a number at every index, also where the attribute is \<open>NULL\<close>;
  \<open>SqlNull raw\<close> is a \<open>NULL\<close> attribute whose slot in the buffer holds \<open>raw\<close>.
\<close>

datatype sql_int = SqlNull int | SqlInt int

type_synonym base_row = "string option \<times> sql_int"

definition is_null :: "sql_int \<Rightarrow> bool" where
  "is_null a = (case a of SqlNull raw \<Rightarrow> True | SqlInt v \<Rightarrow> False)"

definition array_value :: "sql_int \<Rightarrow> int" where
  \<comment> \<open>the number at the row's index of the attribute array\<close>
  "array_value a = (case a of SqlNull raw \<Rightarrow> raw | SqlInt v \<Rightarrow> v)"

definition where_clause :: "int \<Rightarrow> int \<Rightarrow> base_row \<Rightarrow> bool" where
  \<comment> \<open>\<open>WHERE geojson IS NOT NULL AND (class_val IS NULL OR (class_val BETWEEN min AND max))\<close>\<close>
  "where_clause minVal maxVal r =
     (case r of (geojson, cv) \<Rightarrow>
        geojson \<noteq> None \<and>
        (case cv of SqlNull raw \<Rightarrow> True | SqlInt v \<Rightarrow> minVal \<le> v \<and> v \<le> maxVal))"

definition sql_cell :: "'a option \<Rightarrow> 'a cell" where
  "sql_cell x = (case x of None \<Rightarrow> Null | Some v \<Rightarrow> Val v)"

definition arrow_table :: "base_row list \<Rightarrow> result_table" where
  \<comment> \<open>the result holding the given rows, as \<open>toArray()\<close> shows its two columns\<close>
  "arrow_table rows =
     \<lparr>geojson_child = Some (map (\<lambda>r. sql_cell (fst r)) rows),
      class_val_child = Some (map (\<lambda>r. Val (array_value (snd r))) rows)\<rparr>"

definition feature_of_row :: "(string \<Rightarrow> 'g option) \<Rightarrow> base_row \<Rightarrow> 'g feature" where
  "feature_of_row parse r =
     \<lparr>geometry = the (parse (the (fst r))), class_val = Val (array_value (snd r))\<rparr>"

definition claimed_keep :: "int \<Rightarrow> int \<Rightarrow> base_row \<Rightarrow> bool" where
  \<comment> \<open>the rows the specification says are rendered: textual geometry non-null, attribute
      null or within the bounds, both inclusive\<close>
  "claimed_keep minVal maxVal r =
     (fst r \<noteq> None \<and>
      (is_null (snd r) \<or> (minVal \<le> array_value (snd r) \<and> array_value (snd r) \<le> maxVal)))"

definition rendered_keep :: "int \<Rightarrow> int \<Rightarrow> base_row \<Rightarrow> bool" where
  \<comment> \<open>as \<open>claimed_keep\<close>, and the textual geometry is not the empty string, which the
      loop skips\<close>
  "rendered_keep minVal maxVal r = (claimed_keep minVal maxVal r \<and> fst r \<noteq> Some [])"

subsection \<open>Column resolution as the specification words it\<close>

definition priority_findCol :: "string list \<Rightarrow> column list \<Rightarrow> column option" where
  \<comment> \<open>resolution as the specification words it: the candidate names are tried in their
      listed order, and the first one present in the schema selects the column\<close>
  "priority_findCol cands schema =
     (case find (\<lambda>n. n \<in> set (map name schema)) cands of
        None \<Rightarrow> None
      | Some n \<Rightarrow> find (\<lambda>c. name c = n) schema)"

section \<open>The reactive controller\<close>

text \<open>
  The component: its state, the cancellation flag of the bootstrap effect, and the runs
  in flight, each with the engine handle and the filter bounds it was started with.
  A run started by the second effect does its synchronous part at once and settles
  later, at an event of its own; runs settle in any order.

  The events: the bootstrap effect's engine becomes ready (\<open>setDb\<close> and \<open>setStatus\<close>,
  unless \<open>isCancelled\<close>); the component is torn down (the cleanup sets
  \<open>isCancelled\<close>); an input sets a bound; a run in flight settles. The second effect
  runs after an event that changed \<open>db\<close>, \<open>minClass\<close> or \<open>maxClass\<close>; setting a
  bound to the value it has changes nothing. The second effect returns no cleanup, and
  \<open>loadData\<close> reads no flag: a settling run calls \<open>setData\<close> whatever has happened
  since it started.
\<close>

record 'g controller =
  app :: "'g app"
  isCancelled :: bool
  pending :: "(engine \<times> int \<times> int) list"

datatype ui_event =
    BootDone engine
  | Unmount
  | SetMinClass int
  | SetMaxClass int
  | Settle nat

definition effect_loadData :: "'g controller \<Rightarrow> 'g controller" where
  \<comment> \<open>\<open>useEffect(() => { if (!db) return; loadData(db, minClass, maxClass); }, [db, minClass, maxClass, loadData])\<close>\<close>
  "effect_loadData c =
     (case db (app c) of
        None \<Rightarrow> c
      | Some eng \<Rightarrow>
          c\<lparr>app := loadData_start (app c),
            pending := pending c @ [(eng, minClass (app c), maxClass (app c))]\<rparr>)"

definition step :: "(string \<Rightarrow> 'g option) \<Rightarrow> 'g controller \<Rightarrow> ui_event \<Rightarrow> 'g controller" where
  "step parse c ev =
     (case ev of
        BootDone eng \<Rightarrow>
          (if isCancelled c then c
           else effect_loadData (c\<lparr>app := (app c)\<lparr>db := Some eng, status := ''DuckDB ready''\<rparr>\<rparr>))
      | Unmount \<Rightarrow> c\<lparr>isCancelled := True\<rparr>
      | SetMinClass v \<Rightarrow>
          (if v = minClass (app c) then c
           else effect_loadData (c\<lparr>app := (app c)\<lparr>minClass := v\<rparr>\<rparr>))
      | SetMaxClass v \<Rightarrow>
          (if v = maxClass (app c) then c
           else effect_loadData (c\<lparr>app := (app c)\<lparr>maxClass := v\<rparr>\<rparr>))
      | Settle k \<Rightarrow>
          (if k < length (pending c) then
             (case pending c ! k of
                (eng, minVal, maxVal) \<Rightarrow>
                  (case loadData_settle parse eng minVal maxVal (app c) of
                     (st', tr, err) \<Rightarrow>
                       c\<lparr>app := st', pending := take k (pending c) @ drop (Suc k) (pending c)\<rparr>))
           else c))"

definition run_events :: "(string \<Rightarrow> 'g option) \<Rightarrow> 'g controller \<Rightarrow> ui_event list \<Rightarrow> 'g controller" where
  "run_events parse c evs = foldl (step parse) c evs"

definition init_controller :: "'g controller" where
  "init_controller =
     \<lparr>app = \<lparr>db = None, data = None, minClass = 1, maxClass = 25, status = ''Loading DuckDB...''\<rparr>,
      isCancelled = False, pending = []\<rparr>"

section \<open>Fixtures\<close>

text \<open>
  A small dataset and an engine over it, for evaluating the definitions: the view has a
  binary geometry column \<open>GEOM\<close> and an attribute column \<open>Class_ID\<close>; the engine
  answers the main query for the listed pairs of bounds, by the meaning of its text;
  the geometry text \<open>bad\<close> does not parse.
\<close>

definition demo_parse :: "string \<Rightarrow> string option" where
  "demo_parse s = (if s = ''bad'' then None else Some s)"

definition demo_rows :: "base_row list" where
  "demo_rows =
     [(Some ''p1'', SqlInt 2), (Some ''p2'', SqlInt 7), (None, SqlInt 7),
      (Some ''p3'', SqlNull (- 2147483648))]"

definition demo_rows_bad :: "base_row list" where
  "demo_rows_bad = [(Some ''p1'', SqlInt 2), (Some ''bad'', SqlNull 0), (Some ''p3'', SqlInt 4)]"

definition demo_select :: "base_row list \<Rightarrow> (int \<times> int) list \<Rightarrow> string \<Rightarrow> result_table option" where
  "demo_select rows bounds text =
     (case find (\<lambda>b. text = sql_text (''ST_GeomFromWKB('' @ [CHR 0x22] @ ''geom'' @ [CHR 0x22] @ '')'')
                                    (''TRY_CAST('' @ [CHR 0x22] @ ''class_id'' @ [CHR 0x22] @ '' AS INT)'')
                                    (fst b) (snd b)) bounds of
        None \<Rightarrow> None
      | Some b \<Rightarrow> Some (arrow_table (filter (where_clause (fst b) (snd b)) rows)))"

definition demo_engine :: "base_row list \<Rightarrow> (int \<times> int) list \<Rightarrow> engine" where
  "demo_engine rows bounds =
     \<lparr>connect_ok = True,
      stmt_ok = (\<lambda>s. True),
      columns = Some (Some [''GEOM'', ''Class_ID''], Some [''blob'', ''integer'']),
      select = demo_select rows bounds,
      close_ok = True\<rparr>"

definition two_geom_schema :: "column list" where
  "two_geom_schema = schema_of [''geom'', ''geometry'', ''class''] [''BLOB'', ''GEOMETRY'', ''INTEGER'']"

definition unmatched_schema :: "column list" where
  "unmatched_schema = schema_of [''shape'', ''landuse''] [''BLOB'', ''INTEGER'']"

definition unmatched_engine :: engine where
  \<comment> \<open>a view with no geometry or attribute candidate; the main query throws\<close>
  "unmatched_engine =
     \<lparr>connect_ok = True,
      stmt_ok = (\<lambda>s. True),
      columns = Some (Some [''shape'', ''landuse''], Some [''BLOB'', ''INTEGER'']),
      select = (\<lambda>text. None),
      close_ok = True\<rparr>"

definition failing_engine :: engine where
  \<comment> \<open>connects, then fails at the third statement\<close>
  "failing_engine = (demo_engine demo_rows [(1, 25)])\<lparr>stmt_ok := (\<lambda>s. s \<noteq> ''INSTALL spatial;'')\<rparr>"

section \<open>Properties of column-role resolution\<close>

lemma includes_str_sublist: "includes_str s sub = sublist sub s"
  by (induction s) (auto simp: sublist_Cons_right)

lemma geomCands_nonempty: "n \<in> set geomCands \<Longrightarrow> n \<noteq> []"
  by (auto simp: geomCands_def)

lemma classCands_nonempty: "n \<in> set classCands \<Longrightarrow> n \<noteq> []"
  by (auto simp: classCands_def)

lemma findCol_Some_member: "findCol cands schema = Some c \<Longrightarrow> name c \<in> set cands \<and> c \<in> set schema"
  unfolding findCol_def by (induction schema) (auto split: if_splits)

lemma findCol_None_iff: "findCol cands schema = None \<longleftrightarrow> (\<forall>c\<in>set schema. name c \<notin> set cands)"
  unfolding findCol_def by (auto simp: find_None_iff)

lemma geomCol_found: "findCol geomCands schema = Some c \<Longrightarrow> geomCol schema = name c"
  by (auto simp: geomCol_def name_or_def dest!: findCol_Some_member geomCands_nonempty)

lemma geomType_found: "findCol geomCands schema = Some c \<Longrightarrow> geomType schema = type c"
  by (auto simp: geomType_def type_or_def)

text \<open>
  C2 (as amended). Resolution scans the schema, not the candidate list: the column found
  is the one at the smallest schema index whose name is among the candidates, nothing is
  found exactly when no column name is a candidate, and the order in which the
  candidates are listed plays no role.
\<close>

theorem findCol_first_in_schema_order:
  "(findCol cands schema = Some c \<longleftrightarrow>
      (\<exists>i<length schema. schema ! i = c \<and> name c \<in> set cands \<and>
          (\<forall>j<i. name (schema ! j) \<notin> set cands)))
   \<and> (findCol cands schema = None \<longleftrightarrow> (\<forall>d\<in>set schema. name d \<notin> set cands))
   \<and> (set cands = set cands' \<longrightarrow> findCol cands schema = findCol cands' schema)"
  unfolding findCol_def by (auto simp: find_Some_iff find_None_iff)

text \<open>
  The amended statement at a schema holding both \<open>geom\<close> and \<open>geometry\<close>.
\<close>

theorem findCol_first_in_schema_order_witness:
  "findCol geomCands two_geom_schema = Some \<lparr>name = ''geom'', type = ''BLOB''\<rparr>
   \<and> findCol (rev geomCands) two_geom_schema = findCol geomCands two_geom_schema"
proof -
  have f: "findCol geomCands two_geom_schema = Some \<lparr>name = ''geom'', type = ''BLOB''\<rparr>"
    by code_simp
  have s: "set (rev geomCands) = set geomCands" by simp
  from findCol_first_in_schema_order[of "rev geomCands" two_geom_schema _ geomCands] s
  have "findCol (rev geomCands) two_geom_schema = findCol geomCands two_geom_schema" by blast
  with f show ?thesis by simp
qed

text \<open>
  C2 as stated fails. In the schema \<open>geom, geometry, class\<close> the code resolves the
  geometry role to \<open>geom\<close>, the earlier column, although the candidate \<open>geometry\<close>
  comes first in the list and is present; with the columns in the opposite order the
  code resolves to \<open>geometry\<close>, so the result depends on the schema order.
\<close>

theorem findCol_priority_counterexample:
  "map_option name (findCol geomCands two_geom_schema) = Some ''geom''
   \<and> map_option name (priority_findCol geomCands two_geom_schema) = Some ''geometry''
   \<and> map_option name (findCol geomCands (rev two_geom_schema)) = Some ''geometry''"
  by code_simp

text \<open>
  C6. When no column name is a geometry candidate and none is an attribute candidate,
  the roles resolve to the literal names \<open>geometry\<close> and \<open>class\<close>.
\<close>

theorem roles_default:
  assumes "\<forall>c\<in>set schema. name c \<notin> set geomCands"
      and "\<forall>c\<in>set schema. name c \<notin> set classCands"
  shows "geomCol schema = ''geometry'' \<and> classCol schema = ''class''"
proof -
  from assms have "findCol geomCands schema = None" and "findCol classCands schema = None"
    by (simp_all add: findCol_None_iff)
  then show ?thesis by (simp add: geomCol_def classCol_def name_or_def)
qed

text \<open>
  The defaults at a schema with the columns \<open>shape\<close> and \<open>landuse\<close>.
\<close>

theorem roles_default_witness:
  "geomCol unmatched_schema = ''geometry'' \<and> classCol unmatched_schema = ''class''"
proof -
  have g: "\<forall>c\<in>set unmatched_schema. name c \<notin> set geomCands" by code_simp
  have k: "\<forall>c\<in>set unmatched_schema. name c \<notin> set classCands" by code_simp
  show ?thesis by (rule roles_default[OF g k])
qed

section \<open>Properties of the materializer loop\<close>

lemma kept_indices_step:
  "i < length g \<Longrightarrow> kept_indices g i = (if falsy (g ! i) then [] else [i]) @ kept_indices g (Suc i)"
  by (simp add: kept_indices_def upt_conv_Cons)

lemma kept_indices_end: "\<not> i < length g \<Longrightarrow> kept_indices g i = []"
  by (simp add: kept_indices_def)

lemma for_loop_ok:
  "\<forall>j\<in>set (kept_indices g i). parse (text_of (g ! j)) \<noteq> None \<Longrightarrow>
     for_loop parse g c i acc = Inr (acc @ map (feature_at parse g c) (kept_indices g i))"
proof (induction parse g c i acc rule: for_loop.induct)
  case (1 parse g c i acc)
  show ?case
  proof (cases "i < length g")
    case False
    then show ?thesis by (subst for_loop.simps) (simp add: kept_indices_end)
  next
    case inb: True
    show ?thesis
    proof (cases "falsy (g ! i)")
      case True
      with inb 1 show ?thesis by (subst for_loop.simps) (simp add: kept_indices_step)
    next
      case False
      with inb 1(3) obtain v where v: "parse (text_of (g ! i)) = Some v"
        by (auto simp: kept_indices_step)
      from 1(3) inb False have rest: "\<forall>j\<in>set (kept_indices g (Suc i)). parse (text_of (g ! j)) \<noteq> None"
        by (simp add: kept_indices_step)
      from 1(2)[OF inb False v rest] inb False v show ?thesis
        by (subst for_loop.simps) (simp add: kept_indices_step feature_at_def)
    qed
  qed
qed

lemma for_loop_fail:
  "\<exists>j\<in>set (kept_indices g i). parse (text_of (g ! j)) = None \<Longrightarrow>
     \<exists>s. for_loop parse g c i acc = Inl (SyntaxError s)"
proof (induction parse g c i acc rule: for_loop.induct)
  case (1 parse g c i acc)
  from 1(3) have inb: "i < length g"
    by (cases "i < length g") (auto simp: kept_indices_end)
  show ?case
  proof (cases "falsy (g ! i)")
    case True
    with inb 1 show ?thesis by (subst for_loop.simps) (simp add: kept_indices_step)
  next
    case False
    show ?thesis
    proof (cases "parse (text_of (g ! i))")
      case None
      with inb False show ?thesis by (subst for_loop.simps) simp
    next
      case (Some v)
      with 1(3) inb False have "\<exists>j\<in>set (kept_indices g (Suc i)). parse (text_of (g ! j)) = None"
        by (auto simp: kept_indices_step)
      from 1(2)[OF inb False Some this] inb False Some show ?thesis
        by (subst for_loop.simps) simp
    qed
  qed
qed

lemma for_loop_Inr:
  assumes "for_loop parse g c i acc = Inr fs"
  shows "fs = acc @ map (feature_at parse g c) (kept_indices g i)
         \<and> (\<forall>j\<in>set (kept_indices g i). parse (text_of (g ! j)) \<noteq> None)"
proof -
  have ok: "\<forall>j\<in>set (kept_indices g i). parse (text_of (g ! j)) \<noteq> None"
  proof (rule ccontr)
    assume "\<not> (\<forall>j\<in>set (kept_indices g i). parse (text_of (g ! j)) \<noteq> None)"
    then have "\<exists>j\<in>set (kept_indices g i). parse (text_of (g ! j)) = None" by simp
    from for_loop_fail[OF this, of c acc] assms show False by auto
  qed
  from for_loop_ok[OF ok, of c acc] assms ok show ?thesis by simp
qed

lemma nullish_to_null_defined: "nullish_to_null x \<noteq> Undefined"
  by (cases x) (simp_all add: nullish_to_null_def)

lemma nullish_out_of_range: "length c \<le> j \<or> c ! j = Undefined \<Longrightarrow> nullish_to_null (at_index c j) = Null"
  by (auto simp: nullish_to_null_def at_index_def)

text \<open>
  C10. When materialization succeeds, every feature's \<open>class_val\<close> is \<open>null\<close> or
  a number, never \<open>undefined\<close>; the features are those built at the indices kept, and
  the feature built at an index past the end of the attribute array, or at an undefined
  attribute cell, has \<open>class_val\<close> \<open>null\<close>.
\<close>

theorem class_val_never_undefined:
  assumes "materialize parse res = Inr fs"
      and "g = or_empty (geojson_child res)"
      and "c = or_empty (class_val_child res)"
  shows "(\<forall>f\<in>set fs. class_val f = Null \<or> (\<exists>v. class_val f = Val v))
         \<and> fs = map (feature_at parse g c) (kept_indices g 0)
         \<and> (\<forall>j. length c \<le> j \<or> c ! j = Undefined \<longrightarrow> class_val (feature_at parse g c j) = Null)"
proof -
  from assms have "for_loop parse g c 0 [] = Inr fs"
    by (simp add: materialize_def Let_def)
  from for_loop_Inr[OF this] have fs: "fs = map (feature_at parse g c) (kept_indices g 0)"
    by simp
  have "\<And>j. class_val (feature_at parse g c j) = Null \<or> (\<exists>v. class_val (feature_at parse g c j) = Val v)"
  proof -
    fix j
    show "class_val (feature_at parse g c j) = Null \<or> (\<exists>v. class_val (feature_at parse g c j) = Val v)"
      using nullish_to_null_defined[of "at_index c j"]
      by (cases "nullish_to_null (at_index c j)") (simp_all add: feature_at_def)
  qed
  with fs have a: "\<forall>f\<in>set fs. class_val f = Null \<or> (\<exists>v. class_val f = Val v)" by auto
  have b: "\<forall>j. length c \<le> j \<or> c ! j = Undefined \<longrightarrow> class_val (feature_at parse g c j) = Null"
    by (simp add: feature_at_def nullish_out_of_range)
  from a fs b show ?thesis by blast
qed


text \<open>
  Materialization with an attribute array shorter than the geometry array and holding
  an undefined cell.
\<close>

theorem class_val_never_undefined_witness:
  "materialize demo_parse
      \<lparr>geojson_child = Some [Val ''p1'', Null, Val ''p2'', Val ''p3''],
       class_val_child = Some [Val 4, Val 5, Undefined]\<rparr>
     = Inr [\<lparr>geometry = ''p1'', class_val = Val 4\<rparr>,
            \<lparr>geometry = ''p2'', class_val = Null\<rparr>,
            \<lparr>geometry = ''p3'', class_val = Null\<rparr>]
   \<and> class_val (feature_at demo_parse [Val ''p1'', Null, Val ''p2'', Val ''p3''] [Val 4, Val 5, Undefined] 3) = Null
   \<and> class_val (feature_at demo_parse [Val ''p1'', Null, Val ''p2'', Val ''p3''] [Val 4, Val 5, Undefined] 2) = Null"
proof -
  let ?res = "\<lparr>geojson_child = Some [Val ''p1'', Null, Val ''p2'', Val ''p3''],
       class_val_child = Some [Val 4, Val 5, Undefined]\<rparr>"
  let ?g = "[Val ''p1'', Null, Val ''p2'', Val ''p3'']"
  let ?c = "[Val 4, Val 5, Undefined] :: int cell list"
  have m: "materialize demo_parse ?res
     = Inr [\<lparr>geometry = ''p1'', class_val = Val 4\<rparr>,
            \<lparr>geometry = ''p2'', class_val = Null\<rparr>,
            \<lparr>geometry = ''p3'', class_val = Null\<rparr>]"
    by code_simp
  have g: "?g = or_empty (geojson_child ?res)" by (simp add: or_empty_def)
  have c: "?c = or_empty (class_val_child ?res)" by (simp add: or_empty_def)
  from class_val_never_undefined[OF m g c]
  have "\<forall>j. length ?c \<le> j \<or> ?c ! j = Undefined \<longrightarrow> class_val (feature_at demo_parse ?g ?c j) = Null"
    by blast
  then have "class_val (feature_at demo_parse ?g ?c 3) = Null" and "class_val (feature_at demo_parse ?g ?c 2) = Null"
    by simp_all
  with m show ?thesis by simp
qed

section \<open>Properties of the query text\<close>

lemma indent_8: "indent 8 = ''        ''"
  by code_simp

lemma indent_10: "indent 10 = ''          ''"
  by code_simp

lemma indent_12: "indent 12 = ''            ''"
  by code_simp

lemma sql_text_literal:
  "sql_text gexpr cexpr minVal maxVal =
     [CHR 0x0A] @ ''          WITH base AS ('' @
     [CHR 0x0A] @ ''            SELECT ST_AsGeoJSON('' @ gexpr @ '') AS geojson, '' @ cexpr @ '' AS class_val'' @
     [CHR 0x0A] @ ''            FROM gp'' @
     [CHR 0x0A] @ ''          )'' @
     [CHR 0x0A] @ ''          SELECT geojson, class_val'' @
     [CHR 0x0A] @ ''          FROM base'' @
     [CHR 0x0A] @ ''          WHERE geojson IS NOT NULL'' @
     [CHR 0x0A] @ ''            AND (class_val IS NULL OR (class_val BETWEEN '' @ show_int minVal @ '' AND '' @ show_int maxVal @ ''))'' @
     [CHR 0x0A] @ ''        ''"
  by (simp add: sql_text_def nl_def indent_8 indent_10 indent_12)

lemma classExpr_literal: "classExpr schema = ''TRY_CAST('' @ [CHR 0x22] @ classCol schema @ [CHR 0x22] @ '' AS INT)''"
  by (simp add: classExpr_def dq_def)

lemma geomExpr_literal:
  "geomExpr schema =
     (if sublist ''BLOB'' (geomType schema) \<or> sublist ''wkb'' (geomCol schema)
      then ''ST_GeomFromWKB('' @ [CHR 0x22] @ geomCol schema @ [CHR 0x22] @ '')''
      else ''TRY_CAST('' @ [CHR 0x22] @ geomCol schema @ [CHR 0x22] @ '' AS GEOMETRY)'')"
  by (simp add: geomExpr_def dq_def includes_str_sublist)

lemma wkb_cast_differ:
  "''ST_GeomFromWKB('' @ [CHR 0x22] @ a @ [CHR 0x22] @ '')'' \<noteq> ''TRY_CAST('' @ [CHR 0x22] @ b @ [CHR 0x22] @ '' AS GEOMETRY)''"
  by simp

section \<open>Properties of a pipeline run\<close>

lemma map_filter_indices:
  assumes q: "\<And>j. j < length xs \<Longrightarrow> Q j = P (xs ! j)"
      and f: "\<And>j. j < length xs \<Longrightarrow> Q j \<Longrightarrow> F j = f (xs ! j)"
  shows "map F (filter Q [0..<length xs]) = map f (filter P xs)"
proof -
  have "map f (filter P xs) = map f (filter P (map (nth xs) [0..<length xs]))"
    by (simp add: map_nth)
  also have "\<dots> = map (f \<circ> nth xs) (filter (P \<circ> nth xs) [0..<length xs])"
    by (simp add: filter_map)
  also have "filter (P \<circ> nth xs) [0..<length xs] = filter Q [0..<length xs]"
    by (rule filter_cong) (simp_all add: q)
  also have "map (f \<circ> nth xs) (filter Q [0..<length xs]) = map F (filter Q [0..<length xs])"
    by (rule map_cong) (simp_all add: f)
  finally show ?thesis by simp
qed

lemma falsy_sql_cell: "falsy (sql_cell x) = (x = None \<or> x = Some [])"
  by (cases x) (simp_all add: falsy_def sql_cell_def)

lemma text_of_sql_cell: "x \<noteq> None \<Longrightarrow> text_of (sql_cell x) = the x"
  by (cases x) (simp_all add: text_of_def sql_cell_def)

lemma nullish_to_null_Val: "nullish_to_null (Val v) = Val v"
  by (simp add: nullish_to_null_def)

lemma arrow_features:
  "map (feature_at parse (map (\<lambda>r. sql_cell (fst r)) rows) (map (\<lambda>r. Val (array_value (snd r))) rows))
       (filter (\<lambda>j. \<not> falsy (map (\<lambda>r. sql_cell (fst r)) rows ! j)) [0..<length rows])
     = map (feature_of_row parse) (filter (\<lambda>r. fst r \<noteq> None \<and> fst r \<noteq> Some []) rows)"
  by (rule map_filter_indices)
     (auto simp: falsy_sql_cell feature_at_def feature_of_row_def text_of_sql_cell
                 at_index_def nullish_to_null_Val)

lemma materialize_table:
  assumes "materialize parse (arrow_table rows) = Inr fs"
  shows "fs = map (feature_of_row parse) (filter (\<lambda>r. fst r \<noteq> None \<and> fst r \<noteq> Some []) rows)
         \<and> (\<forall>r\<in>set rows. fst r \<noteq> None \<and> fst r \<noteq> Some [] \<longrightarrow> parse (the (fst r)) \<noteq> None)"
proof -
  let ?g = "map (\<lambda>r. sql_cell (fst r)) rows"
  let ?c = "map (\<lambda>r. Val (array_value (snd r))) rows"
  from assms have "for_loop parse ?g ?c 0 [] = Inr fs"
    by (simp add: materialize_def arrow_table_def or_empty_def)
  from for_loop_Inr[OF this]
  have fs: "fs = map (feature_at parse ?g ?c) (kept_indices ?g 0)"
    and ok: "\<forall>j\<in>set (kept_indices ?g 0). parse (text_of (?g ! j)) \<noteq> None"
    by simp_all
  from fs arrow_features[of parse rows]
  have a: "fs = map (feature_of_row parse) (filter (\<lambda>r. fst r \<noteq> None \<and> fst r \<noteq> Some []) rows)"
    by (simp add: kept_indices_def)
  have b: "\<forall>r\<in>set rows. fst r \<noteq> None \<and> fst r \<noteq> Some [] \<longrightarrow> parse (the (fst r)) \<noteq> None"
  proof (intro ballI impI)
    fix r assume r: "r \<in> set rows" and ne: "fst r \<noteq> None \<and> fst r \<noteq> Some []"
    from r obtain j where j: "j < length rows" "rows ! j = r"
      by (auto simp: in_set_conv_nth)
    with ne have "j \<in> set (kept_indices ?g 0)"
      by (simp add: kept_indices_def falsy_sql_cell)
    with ok have "parse (text_of (?g ! j)) \<noteq> None" by blast
    with j ne show "parse (the (fst r)) \<noteq> None"
      by (simp add: text_of_sql_cell)
  qed
  from a b show ?thesis by blast
qed

lemma materialize_table_ok:
  assumes "\<forall>r\<in>set rows. fst r \<noteq> None \<and> fst r \<noteq> Some [] \<longrightarrow> parse (the (fst r)) \<noteq> None"
  shows "materialize parse (arrow_table rows)
           = Inr (map (feature_of_row parse) (filter (\<lambda>r. fst r \<noteq> None \<and> fst r \<noteq> Some []) rows))"
proof -
  let ?g = "map (\<lambda>r. sql_cell (fst r)) rows"
  let ?c = "map (\<lambda>r. Val (array_value (snd r))) rows"
  have "\<forall>j\<in>set (kept_indices ?g 0). parse (text_of (?g ! j)) \<noteq> None"
    using assms by (auto simp: kept_indices_def falsy_sql_cell text_of_sql_cell)
  from for_loop_ok[OF this, of ?c "[]"]
  have "for_loop parse ?g ?c 0 [] = Inr (map (feature_at parse ?g ?c) (kept_indices ?g 0))"
    by simp
  with arrow_features[of parse rows] show ?thesis
    by (simp add: materialize_def arrow_table_def or_empty_def kept_indices_def)
qed

lemma where_clause_iff: "where_clause minVal maxVal r = claimed_keep minVal maxVal r"
  by (cases r)
     (auto simp: where_clause_def claimed_keep_def is_null_def array_value_def split: sql_int.splits)

lemma rendered_keep_iff:
  "rendered_keep minVal maxVal r = (where_clause minVal maxVal r \<and> fst r \<noteq> None \<and> fst r \<noteq> Some [])"
  by (auto simp: where_clause_iff rendered_keep_def claimed_keep_def)

lemma run_queries_Inr:
  assumes "run_queries eng minVal maxVal = (Inr res, tr)"
  shows "select eng (sql_text (geomExpr (discovered_schema eng)) (classExpr (discovered_schema eng))
                        minVal maxVal) = Some res"
  using assms
  by (auto simp: run_queries_def discovered_schema_def Let_def split: prod.splits option.splits)

lemma materialized_Some:
  assumes "materialized parse eng minVal maxVal = Some fs"
  shows "connect_ok eng \<and>
         (\<exists>res. select eng (sql_text (geomExpr (discovered_schema eng)) (classExpr (discovered_schema eng))
                              minVal maxVal) = Some res
               \<and> materialize parse res = Inr fs)"
proof -
  from assms have c: "connect_ok eng" and t: "fst (try_block parse eng minVal maxVal) = Inr fs"
    by (auto simp: materialized_def split: if_splits sum.splits)
  obtain r tr where rq: "run_queries eng minVal maxVal = (r, tr)" by (cases "run_queries eng minVal maxVal")
  with t obtain res where res: "r = Inr res" "materialize parse res = Inr fs"
    by (cases r) (auto simp: try_block_def)
  from run_queries_Inr[OF rq[unfolded res(1)]] res(2) c show ?thesis by auto
qed

lemma exec_all_ok: "\<forall>s\<in>set ss. stmt_ok eng s \<Longrightarrow> fst (exec_all eng ss) = None"
  by (induction ss) (auto split: prod.splits)

lemma run_queries_ok:
  assumes "\<forall>s\<in>set setup_statements. stmt_ok eng s"
      and "columns eng \<noteq> None"
      and "select eng (sql_text (geomExpr (discovered_schema eng)) (classExpr (discovered_schema eng))
                         minVal maxVal) = Some res"
  shows "fst (run_queries eng minVal maxVal) = Inr res"
proof -
  obtain tr where "exec_all eng setup_statements = (None, tr)"
    using exec_all_ok[OF assms(1)] by (cases "exec_all eng setup_statements") auto
  with assms(2,3) show ?thesis
    by (auto simp: run_queries_def discovered_schema_def Let_def)
qed

lemma materialized_ok:
  assumes "connect_ok eng"
      and "\<forall>s\<in>set setup_statements. stmt_ok eng s"
      and "columns eng \<noteq> None"
      and "select eng (sql_text (geomExpr (discovered_schema eng)) (classExpr (discovered_schema eng))
                         minVal maxVal) = Some res"
      and "materialize parse res = Inr fs"
  shows "materialized parse eng minVal maxVal = Some fs"
  using run_queries_ok[OF assms(2,3,4)] assms(1,5)
  by (cases "run_queries eng minVal maxVal") (simp add: materialized_def try_block_def)

lemma loadData_data:
  "data (fst (loadData parse eng minVal maxVal st))
     = (case materialized parse eng minVal maxVal of None \<Rightarrow> data st | Some fs \<Rightarrow> Some fs)"
  by (auto simp: loadData_def loadData_settle_def loadData_start_def materialized_def
           split: prod.splits sum.splits)

lemma loadData_error:
  "materialized parse eng minVal maxVal = None \<Longrightarrow> snd (snd (loadData parse eng minVal maxVal st)) \<noteq> None"
  by (auto simp: loadData_def loadData_settle_def loadData_start_def materialized_def
           split: prod.splits sum.splits if_splits)

lemma exec_all_trace: "\<forall>e\<in>set (snd (exec_all eng ss)). \<exists>s. e = Query s"
  by (induction ss) (auto split: prod.splits)

lemma run_queries_trace: "\<forall>e\<in>set (snd (run_queries eng minVal maxVal)). \<exists>s. e = Query s"
  using exec_all_trace[of eng setup_statements]
  by (auto simp: run_queries_def Let_def split: prod.splits option.splits)

lemma try_block_trace: "\<forall>e\<in>set (snd (try_block parse eng minVal maxVal)). \<exists>s. e = Query s"
  using run_queries_trace[of eng minVal maxVal]
  by (auto simp: try_block_def split: prod.splits sum.splits)

lemma loadData_trace:
  "fst (snd (loadData parse eng minVal maxVal st))
     = (if connect_ok eng then Connect # snd (try_block parse eng minVal maxVal) @ [Close] else [])"
  by (auto simp: loadData_def loadData_settle_def split: prod.splits sum.splits)

lemma run_queries_sends:
  assumes "\<forall>s\<in>set setup_statements. stmt_ok eng s"
      and "columns eng \<noteq> None"
  shows "Query (sql_text (geomExpr (discovered_schema eng)) (classExpr (discovered_schema eng))
                  minVal maxVal) \<in> set (snd (run_queries eng minVal maxVal))"
proof -
  obtain tr where "exec_all eng setup_statements = (None, tr)"
    using exec_all_ok[OF assms(1)] by (cases "exec_all eng setup_statements") auto
  with assms(2) show ?thesis
    by (auto simp: run_queries_def discovered_schema_def Let_def split: option.splits)
qed

lemma loadData_sends:
  assumes "connect_ok eng"
      and "\<forall>s\<in>set setup_statements. stmt_ok eng s"
      and "columns eng \<noteq> None"
  shows "Query (sql_text (geomExpr (discovered_schema eng)) (classExpr (discovered_schema eng))
                  minVal maxVal) \<in> set (fst (snd (loadData parse eng minVal maxVal st)))"
proof -
  have "snd (try_block parse eng minVal maxVal) = snd (run_queries eng minVal maxVal)"
    by (auto simp: try_block_def split: prod.splits sum.splits)
  with run_queries_sends[OF assms(2,3), of minVal maxVal] assms(1) show ?thesis
    by (simp add: loadData_trace)
qed

section \<open>Properties of the generated query\<close>

text \<open>
  C3. The geometry expression is \<open>ST_GeomFromWKB("col")\<close> of the resolved column exactly
  when the resolved type contains \<open>BLOB\<close> or the resolved name contains \<open>wkb\<close>, and
  \<open>TRY_CAST("col" AS GEOMETRY)\<close> exactly when neither holds; the resolved name and type
  are those of the column found; and a run that gets as far as the main query sends the
  text below, in which that expression is the argument of \<open>ST_AsGeoJSON\<close>.
\<close>

theorem geomExpr_routing:
  "(geomExpr schema = ''ST_GeomFromWKB('' @ [CHR 0x22] @ geomCol schema @ [CHR 0x22] @ '')'') = (sublist ''BLOB'' (geomType schema) \<or> sublist ''wkb'' (geomCol schema))
   \<and> (geomExpr schema = ''TRY_CAST('' @ [CHR 0x22] @ geomCol schema @ [CHR 0x22] @ '' AS GEOMETRY)'') = (\<not> (sublist ''BLOB'' (geomType schema) \<or> sublist ''wkb'' (geomCol schema)))
   \<and> (\<forall>c. findCol geomCands schema = Some c \<longrightarrow> geomCol schema = name c \<and> geomType schema = type c)
   \<and> (connect_ok eng \<and> (\<forall>s\<in>set setup_statements. stmt_ok eng s) \<and> columns eng \<noteq> None
        \<and> discovered_schema eng = schema \<longrightarrow>
      Query ([CHR 0x0A] @ ''          WITH base AS ('' @
             [CHR 0x0A] @ ''            SELECT ST_AsGeoJSON('' @ (if sublist ''BLOB'' (geomType schema) \<or> sublist ''wkb'' (geomCol schema)
                 then ''ST_GeomFromWKB('' @ [CHR 0x22] @ geomCol schema @ [CHR 0x22] @ '')''
                 else ''TRY_CAST('' @ [CHR 0x22] @ geomCol schema @ [CHR 0x22] @ '' AS GEOMETRY)'') @ '') AS geojson, '' @ (''TRY_CAST('' @ [CHR 0x22] @ classCol schema @ [CHR 0x22] @ '' AS INT)'') @ '' AS class_val'' @
             [CHR 0x0A] @ ''            FROM gp'' @
             [CHR 0x0A] @ ''          )'' @
             [CHR 0x0A] @ ''          SELECT geojson, class_val'' @
             [CHR 0x0A] @ ''          FROM base'' @
             [CHR 0x0A] @ ''          WHERE geojson IS NOT NULL'' @
             [CHR 0x0A] @ ''            AND (class_val IS NULL OR (class_val BETWEEN '' @ show_int minVal @ '' AND '' @ show_int maxVal @ ''))'' @
             [CHR 0x0A] @ ''        '')
        \<in> set (fst (snd (loadData parse eng minVal maxVal st))))"
proof -
  have a: "(geomExpr schema = ''ST_GeomFromWKB('' @ [CHR 0x22] @ geomCol schema @ [CHR 0x22] @ '')'') = (sublist ''BLOB'' (geomType schema) \<or> sublist ''wkb'' (geomCol schema))"
    using wkb_cast_differ[of "geomCol schema" "geomCol schema"] by (simp add: geomExpr_literal)
  have b: "(geomExpr schema = ''TRY_CAST('' @ [CHR 0x22] @ geomCol schema @ [CHR 0x22] @ '' AS GEOMETRY)'') = (\<not> (sublist ''BLOB'' (geomType schema) \<or> sublist ''wkb'' (geomCol schema)))"
    using wkb_cast_differ[of "geomCol schema" "geomCol schema"] by (simp add: geomExpr_literal)
  have c: "\<forall>c. findCol geomCands schema = Some c \<longrightarrow> geomCol schema = name c \<and> geomType schema = type c"
    by (simp add: geomCol_found geomType_found)
  have d: "connect_ok eng \<and> (\<forall>s\<in>set setup_statements. stmt_ok eng s) \<and> columns eng \<noteq> None
        \<and> discovered_schema eng = schema \<longrightarrow>
      Query ([CHR 0x0A] @ ''          WITH base AS ('' @
             [CHR 0x0A] @ ''            SELECT ST_AsGeoJSON('' @ (if sublist ''BLOB'' (geomType schema) \<or> sublist ''wkb'' (geomCol schema)
                 then ''ST_GeomFromWKB('' @ [CHR 0x22] @ geomCol schema @ [CHR 0x22] @ '')''
                 else ''TRY_CAST('' @ [CHR 0x22] @ geomCol schema @ [CHR 0x22] @ '' AS GEOMETRY)'') @ '') AS geojson, '' @ (''TRY_CAST('' @ [CHR 0x22] @ classCol schema @ [CHR 0x22] @ '' AS INT)'') @ '' AS class_val'' @
             [CHR 0x0A] @ ''            FROM gp'' @
             [CHR 0x0A] @ ''          )'' @
             [CHR 0x0A] @ ''          SELECT geojson, class_val'' @
             [CHR 0x0A] @ ''          FROM base'' @
             [CHR 0x0A] @ ''          WHERE geojson IS NOT NULL'' @
             [CHR 0x0A] @ ''            AND (class_val IS NULL OR (class_val BETWEEN '' @ show_int minVal @ '' AND '' @ show_int maxVal @ ''))'' @
             [CHR 0x0A] @ ''        '')
        \<in> set (fst (snd (loadData parse eng minVal maxVal st)))"
  proof
    assume h: "connect_ok eng \<and> (\<forall>s\<in>set setup_statements. stmt_ok eng s) \<and> columns eng \<noteq> None
        \<and> discovered_schema eng = schema"
    then have "Query (sql_text (geomExpr schema) (classExpr schema) minVal maxVal)
                 \<in> set (fst (snd (loadData parse eng minVal maxVal st)))"
      using loadData_sends[of eng minVal maxVal parse st] by auto
    then show "Query ([CHR 0x0A] @ ''          WITH base AS ('' @
             [CHR 0x0A] @ ''            SELECT ST_AsGeoJSON('' @ (if sublist ''BLOB'' (geomType schema) \<or> sublist ''wkb'' (geomCol schema)
                 then ''ST_GeomFromWKB('' @ [CHR 0x22] @ geomCol schema @ [CHR 0x22] @ '')''
                 else ''TRY_CAST('' @ [CHR 0x22] @ geomCol schema @ [CHR 0x22] @ '' AS GEOMETRY)'') @ '') AS geojson, '' @ (''TRY_CAST('' @ [CHR 0x22] @ classCol schema @ [CHR 0x22] @ '' AS INT)'') @ '' AS class_val'' @
             [CHR 0x0A] @ ''            FROM gp'' @
             [CHR 0x0A] @ ''          )'' @
             [CHR 0x0A] @ ''          SELECT geojson, class_val'' @
             [CHR 0x0A] @ ''          FROM base'' @
             [CHR 0x0A] @ ''          WHERE geojson IS NOT NULL'' @
             [CHR 0x0A] @ ''            AND (class_val IS NULL OR (class_val BETWEEN '' @ show_int minVal @ '' AND '' @ show_int maxVal @ ''))'' @
             [CHR 0x0A] @ ''        '')
        \<in> set (fst (snd (loadData parse eng minVal maxVal st)))"
      by (simp only: sql_text_literal classExpr_literal geomExpr_literal)
  qed
  from a b c d show ?thesis by blast
qed

text \<open>
  The routing in a run over the sample view, whose geometry column \<open>geom\<close> has the
  type \<open>BLOB\<close>.
\<close>

theorem geomExpr_routing_witness:
  "geomExpr (discovered_schema (demo_engine demo_rows [(1, 25)])) = ''ST_GeomFromWKB('' @ [CHR 0x22] @ ''geom'' @ [CHR 0x22] @ '')''
   \<and> geomCol (discovered_schema (demo_engine demo_rows [(1, 25)])) = ''geom''
   \<and> Query ([CHR 0x0A] @ ''          WITH base AS ('' @
             [CHR 0x0A] @ ''            SELECT ST_AsGeoJSON('' @ (''ST_GeomFromWKB('' @ [CHR 0x22] @ ''geom'' @ [CHR 0x22] @ '')'') @ '') AS geojson, '' @ (''TRY_CAST('' @ [CHR 0x22] @ ''class_id'' @ [CHR 0x22] @ '' AS INT)'') @ '' AS class_val'' @
             [CHR 0x0A] @ ''            FROM gp'' @
             [CHR 0x0A] @ ''          )'' @
             [CHR 0x0A] @ ''          SELECT geojson, class_val'' @
             [CHR 0x0A] @ ''          FROM base'' @
             [CHR 0x0A] @ ''          WHERE geojson IS NOT NULL'' @
             [CHR 0x0A] @ ''            AND (class_val IS NULL OR (class_val BETWEEN '' @ ''1'' @ '' AND '' @ ''25'' @ ''))'' @
             [CHR 0x0A] @ ''        '')
        \<in> set (fst (snd (loadData demo_parse (demo_engine demo_rows [(1, 25)]) 1 25 (app init_controller))))"
proof -
  let ?eng = "demo_engine demo_rows [(1, 25)]"
  let ?s = "discovered_schema ?eng"
  have f: "findCol geomCands ?s = Some \<lparr>name = ''geom'', type = ''BLOB''\<rparr>" by code_simp
  have cl: "classCol ?s = ''class_id''" by code_simp
  have blob: "sublist ''BLOB'' ''BLOB''" by code_simp
  have one: "show_int 1 = ''1''" and two: "show_int 25 = ''25''" by code_simp+
  have h: "connect_ok ?eng \<and> (\<forall>s\<in>set setup_statements. stmt_ok ?eng s) \<and> columns ?eng \<noteq> None
        \<and> discovered_schema ?eng = ?s"
    by (simp add: demo_engine_def)
  note r = geomExpr_routing[where schema = ?s and eng = ?eng and parse = demo_parse
                              and minVal = 1 and maxVal = 25 and st = "app init_controller"]
  from r f have g: "geomCol ?s = ''geom''" and t: "geomType ?s = ''BLOB''" by auto
  from r g t blob have e: "geomExpr ?s = ''ST_GeomFromWKB('' @ [CHR 0x22] @ ''geom'' @ [CHR 0x22] @ '')''" by simp
  from r h have "Query ([CHR 0x0A] @ ''          WITH base AS ('' @
             [CHR 0x0A] @ ''            SELECT ST_AsGeoJSON('' @ (if sublist ''BLOB'' (geomType ?s) \<or> sublist ''wkb'' (geomCol ?s)
                 then ''ST_GeomFromWKB('' @ [CHR 0x22] @ geomCol ?s @ [CHR 0x22] @ '')''
                 else ''TRY_CAST('' @ [CHR 0x22] @ geomCol ?s @ [CHR 0x22] @ '' AS GEOMETRY)'') @ '') AS geojson, '' @ (''TRY_CAST('' @ [CHR 0x22] @ classCol ?s @ [CHR 0x22] @ '' AS INT)'') @ '' AS class_val'' @
             [CHR 0x0A] @ ''            FROM gp'' @
             [CHR 0x0A] @ ''          )'' @
             [CHR 0x0A] @ ''          SELECT geojson, class_val'' @
             [CHR 0x0A] @ ''          FROM base'' @
             [CHR 0x0A] @ ''          WHERE geojson IS NOT NULL'' @
             [CHR 0x0A] @ ''            AND (class_val IS NULL OR (class_val BETWEEN '' @ show_int 1 @ '' AND '' @ show_int 25 @ ''))'' @
             [CHR 0x0A] @ ''        '')
        \<in> set (fst (snd (loadData demo_parse ?eng 1 25 (app init_controller))))"
    by blast
  with g t cl blob one two e show ?thesis by simp
qed

text \<open>
  C9. When no column name is a geometry candidate, the geometry column is the literal
  \<open>geometry\<close>, its type is the empty string, and the geometry expression is
  \<open>TRY_CAST("geometry" AS GEOMETRY)\<close>, never \<open>ST_GeomFromWKB("geometry")\<close>; a run over
  such a schema that gets as far as the main query sends the text below, in which the
  cast is the argument of \<open>ST_AsGeoJSON\<close>.
\<close>

theorem fallback_geometry_cast:
  assumes "\<forall>c\<in>set schema. name c \<notin> set geomCands"
  shows "geomCol schema = ''geometry'' \<and> geomType schema = []
         \<and> geomExpr schema = ''TRY_CAST('' @ [CHR 0x22] @ ''geometry'' @ [CHR 0x22] @ '' AS GEOMETRY)''
         \<and> geomExpr schema \<noteq> ''ST_GeomFromWKB('' @ [CHR 0x22] @ ''geometry'' @ [CHR 0x22] @ '')''
         \<and> (connect_ok eng \<and> (\<forall>s\<in>set setup_statements. stmt_ok eng s) \<and> columns eng \<noteq> None
              \<and> discovered_schema eng = schema \<longrightarrow>
            Query ([CHR 0x0A] @ ''          WITH base AS ('' @
                   [CHR 0x0A] @ ''            SELECT ST_AsGeoJSON('' @ (''TRY_CAST('' @ [CHR 0x22] @ ''geometry'' @ [CHR 0x22] @ '' AS GEOMETRY)'') @ '') AS geojson, '' @ (''TRY_CAST('' @ [CHR 0x22] @ classCol schema @ [CHR 0x22] @ '' AS INT)'') @ '' AS class_val'' @
                   [CHR 0x0A] @ ''            FROM gp'' @
                   [CHR 0x0A] @ ''          )'' @
                   [CHR 0x0A] @ ''          SELECT geojson, class_val'' @
                   [CHR 0x0A] @ ''          FROM base'' @
                   [CHR 0x0A] @ ''          WHERE geojson IS NOT NULL'' @
                   [CHR 0x0A] @ ''            AND (class_val IS NULL OR (class_val BETWEEN '' @ show_int minVal @ '' AND '' @ show_int maxVal @ ''))'' @
                   [CHR 0x0A] @ ''        '')
              \<in> set (fst (snd (loadData parse eng minVal maxVal st))))"
proof -
  from assms have none: "findCol geomCands schema = None"
    by (simp add: findCol_None_iff)
  then have g: "geomCol schema = ''geometry''" and t: "geomType schema = []"
    by (simp_all add: geomCol_def geomType_def name_or_def type_or_def)
  have nb: "\<not> sublist ''BLOB'' ([] :: string)" and nw: "\<not> sublist ''wkb'' ''geometry''"
    by code_simp+
  with g t have e: "geomExpr schema = ''TRY_CAST('' @ [CHR 0x22] @ ''geometry'' @ [CHR 0x22] @ '' AS GEOMETRY)''"
    by (simp add: geomExpr_literal)
  have d: "connect_ok eng \<and> (\<forall>s\<in>set setup_statements. stmt_ok eng s) \<and> columns eng \<noteq> None
              \<and> discovered_schema eng = schema \<longrightarrow>
            Query ([CHR 0x0A] @ ''          WITH base AS ('' @
                   [CHR 0x0A] @ ''            SELECT ST_AsGeoJSON('' @ (''TRY_CAST('' @ [CHR 0x22] @ ''geometry'' @ [CHR 0x22] @ '' AS GEOMETRY)'') @ '') AS geojson, '' @ (''TRY_CAST('' @ [CHR 0x22] @ classCol schema @ [CHR 0x22] @ '' AS INT)'') @ '' AS class_val'' @
                   [CHR 0x0A] @ ''            FROM gp'' @
                   [CHR 0x0A] @ ''          )'' @
                   [CHR 0x0A] @ ''          SELECT geojson, class_val'' @
                   [CHR 0x0A] @ ''          FROM base'' @
                   [CHR 0x0A] @ ''          WHERE geojson IS NOT NULL'' @
                   [CHR 0x0A] @ ''            AND (class_val IS NULL OR (class_val BETWEEN '' @ show_int minVal @ '' AND '' @ show_int maxVal @ ''))'' @
                   [CHR 0x0A] @ ''        '')
              \<in> set (fst (snd (loadData parse eng minVal maxVal st)))"
  proof
    assume h: "connect_ok eng \<and> (\<forall>s\<in>set setup_statements. stmt_ok eng s) \<and> columns eng \<noteq> None
              \<and> discovered_schema eng = schema"
    then have "Query (sql_text (geomExpr schema) (classExpr schema) minVal maxVal)
                 \<in> set (fst (snd (loadData parse eng minVal maxVal st)))"
      using loadData_sends[of eng minVal maxVal parse st] by auto
    then show "Query ([CHR 0x0A] @ ''          WITH base AS ('' @
                   [CHR 0x0A] @ ''            SELECT ST_AsGeoJSON('' @ (''TRY_CAST('' @ [CHR 0x22] @ ''geometry'' @ [CHR 0x22] @ '' AS GEOMETRY)'') @ '') AS geojson, '' @ (''TRY_CAST('' @ [CHR 0x22] @ classCol schema @ [CHR 0x22] @ '' AS INT)'') @ '' AS class_val'' @
                   [CHR 0x0A] @ ''            FROM gp'' @
                   [CHR 0x0A] @ ''          )'' @
                   [CHR 0x0A] @ ''          SELECT geojson, class_val'' @
                   [CHR 0x0A] @ ''          FROM base'' @
                   [CHR 0x0A] @ ''          WHERE geojson IS NOT NULL'' @
                   [CHR 0x0A] @ ''            AND (class_val IS NULL OR (class_val BETWEEN '' @ show_int minVal @ '' AND '' @ show_int maxVal @ ''))'' @
                   [CHR 0x0A] @ ''        '')
              \<in> set (fst (snd (loadData parse eng minVal maxVal st)))"
      by (simp only: sql_text_literal classExpr_literal e)
  qed
  from g t e d wkb_cast_differ[of "''geometry''" "''geometry''"] show ?thesis by simp
qed

text \<open>
  The fallback in a run over a view with the columns \<open>shape\<close> and \<open>landuse\<close>.
\<close>

theorem fallback_geometry_cast_witness:
  "geomExpr unmatched_schema = ''TRY_CAST('' @ [CHR 0x22] @ ''geometry'' @ [CHR 0x22] @ '' AS GEOMETRY)''
   \<and> geomType unmatched_schema = []
   \<and> Query ([CHR 0x0A] @ ''          WITH base AS ('' @
             [CHR 0x0A] @ ''            SELECT ST_AsGeoJSON('' @ (''TRY_CAST('' @ [CHR 0x22] @ ''geometry'' @ [CHR 0x22] @ '' AS GEOMETRY)'') @ '') AS geojson, '' @ (''TRY_CAST('' @ [CHR 0x22] @ ''class'' @ [CHR 0x22] @ '' AS INT)'') @ '' AS class_val'' @
             [CHR 0x0A] @ ''            FROM gp'' @
             [CHR 0x0A] @ ''          )'' @
             [CHR 0x0A] @ ''          SELECT geojson, class_val'' @
             [CHR 0x0A] @ ''          FROM base'' @
             [CHR 0x0A] @ ''          WHERE geojson IS NOT NULL'' @
             [CHR 0x0A] @ ''            AND (class_val IS NULL OR (class_val BETWEEN '' @ ''1'' @ '' AND '' @ ''25'' @ ''))'' @
             [CHR 0x0A] @ ''        '')
        \<in> set (fst (snd (loadData demo_parse unmatched_engine 1 25 (app init_controller))))"
proof -
  have g: "\<forall>c\<in>set unmatched_schema. name c \<notin> set geomCands" by code_simp
  have cl: "classCol unmatched_schema = ''class''" by code_simp
  have one: "show_int 1 = ''1''" and two: "show_int 25 = ''25''" by code_simp+
  have ds: "discovered_schema unmatched_engine = unmatched_schema"
    by (simp add: discovered_schema_def unmatched_engine_def unmatched_schema_def or_empty_def)
  have h: "connect_ok unmatched_engine \<and> (\<forall>s\<in>set setup_statements. stmt_ok unmatched_engine s)
           \<and> columns unmatched_engine \<noteq> None \<and> discovered_schema unmatched_engine = unmatched_schema"
    using ds by (simp add: unmatched_engine_def)
  note r = fallback_geometry_cast[OF g, where eng = unmatched_engine and parse = demo_parse
                                    and minVal = 1 and maxVal = 25 and st = "app init_controller"]
  from r h have "Query ([CHR 0x0A] @ ''          WITH base AS ('' @
             [CHR 0x0A] @ ''            SELECT ST_AsGeoJSON('' @ (''TRY_CAST('' @ [CHR 0x22] @ ''geometry'' @ [CHR 0x22] @ '' AS GEOMETRY)'') @ '') AS geojson, '' @ (''TRY_CAST('' @ [CHR 0x22] @ classCol unmatched_schema @ [CHR 0x22] @ '' AS INT)'') @ '' AS class_val'' @
             [CHR 0x0A] @ ''            FROM gp'' @
             [CHR 0x0A] @ ''          )'' @
             [CHR 0x0A] @ ''          SELECT geojson, class_val'' @
             [CHR 0x0A] @ ''          FROM base'' @
             [CHR 0x0A] @ ''          WHERE geojson IS NOT NULL'' @
             [CHR 0x0A] @ ''            AND (class_val IS NULL OR (class_val BETWEEN '' @ show_int 1 @ '' AND '' @ show_int 25 @ ''))'' @
             [CHR 0x0A] @ ''        '')
        \<in> set (fst (snd (loadData demo_parse unmatched_engine 1 25 (app init_controller))))"
    by blast
  with r cl one two show ?thesis by simp
qed

section \<open>Properties of the rendered rows, of failures and of the connection\<close>

lemma run_text:
  "[CHR 0x0A] @ ''          WITH base AS ('' @
   [CHR 0x0A] @ ''            SELECT ST_AsGeoJSON('' @ geomExpr (discovered_schema eng) @ '') AS geojson, '' @ (''TRY_CAST('' @ [CHR 0x22] @ classCol (discovered_schema eng) @ [CHR 0x22] @ '' AS INT)'') @ '' AS class_val'' @
   [CHR 0x0A] @ ''            FROM gp'' @
   [CHR 0x0A] @ ''          )'' @
   [CHR 0x0A] @ ''          SELECT geojson, class_val'' @
   [CHR 0x0A] @ ''          FROM base'' @
   [CHR 0x0A] @ ''          WHERE geojson IS NOT NULL'' @
   [CHR 0x0A] @ ''            AND (class_val IS NULL OR (class_val BETWEEN '' @ show_int minVal @ '' AND '' @ show_int maxVal @ ''))'' @
   [CHR 0x0A] @ ''        ''
   = sql_text (geomExpr (discovered_schema eng)) (classExpr (discovered_schema eng)) minVal maxVal"
  by (simp only: sql_text_literal classExpr_literal)

text \<open>
  C1. Let the engine answer the main query, whose text is written out below, with the
  rows of \<open>base\<close> that satisfy its \<open>WHERE\<close> clause, in their order, and let no textual
  geometry be the empty string (the text is the output of \<open>ST_AsGeoJSON\<close>). Then the
  collection a run materializes is published as it is, and it holds exactly the rows
  whose textual geometry is non-null and whose attribute is null or within the bounds,
  one feature per row in the order of the rows; every such row's text parses.
  Conversely, when connecting and the statements and the information-schema query
  succeed and every such row's text parses, the run materializes that collection.
\<close>

theorem collection_is_filtered_rows:
  assumes "select eng
             ([CHR 0x0A] @ ''          WITH base AS ('' @
              [CHR 0x0A] @ ''            SELECT ST_AsGeoJSON('' @ geomExpr (discovered_schema eng) @ '') AS geojson, '' @ (''TRY_CAST('' @ [CHR 0x22] @ classCol (discovered_schema eng) @ [CHR 0x22] @ '' AS INT)'') @ '' AS class_val'' @
              [CHR 0x0A] @ ''            FROM gp'' @
              [CHR 0x0A] @ ''          )'' @
              [CHR 0x0A] @ ''          SELECT geojson, class_val'' @
              [CHR 0x0A] @ ''          FROM base'' @
              [CHR 0x0A] @ ''          WHERE geojson IS NOT NULL'' @
              [CHR 0x0A] @ ''            AND (class_val IS NULL OR (class_val BETWEEN '' @ show_int minVal @ '' AND '' @ show_int maxVal @ ''))'' @
              [CHR 0x0A] @ ''        '')
           = Some (arrow_table (filter (where_clause minVal maxVal) rows))"
      and "\<forall>r\<in>set rows. fst r \<noteq> Some []"
  shows "(materialized parse eng minVal maxVal = Some fs \<longrightarrow>
            data (fst (loadData parse eng minVal maxVal st)) = Some fs
            \<and> fs = map (feature_of_row parse) (filter (claimed_keep minVal maxVal) rows)
            \<and> (\<forall>r\<in>set (filter (claimed_keep minVal maxVal) rows). parse (the (fst r)) \<noteq> None))
         \<and> (connect_ok eng \<and> (\<forall>s\<in>set setup_statements. stmt_ok eng s) \<and> columns eng \<noteq> None
              \<and> (\<forall>r\<in>set (filter (claimed_keep minVal maxVal) rows). parse (the (fst r)) \<noteq> None) \<longrightarrow>
            materialized parse eng minVal maxVal
              = Some (map (feature_of_row parse) (filter (claimed_keep minVal maxVal) rows)))"
proof -
  let ?kept = "filter (where_clause minVal maxVal) rows"
  from assms(1) have ans:
    "select eng (sql_text (geomExpr (discovered_schema eng)) (classExpr (discovered_schema eng))
                    minVal maxVal) = Some (arrow_table ?kept)"
    by (simp only: run_text)
  have eq: "filter (\<lambda>r. fst r \<noteq> None \<and> fst r \<noteq> Some []) ?kept = filter (claimed_keep minVal maxVal) rows"
    using assms(2) by (auto simp: where_clause_iff claimed_keep_def intro: filter_cong)
  have fwd: "materialized parse eng minVal maxVal = Some fs \<longrightarrow>
            data (fst (loadData parse eng minVal maxVal st)) = Some fs
            \<and> fs = map (feature_of_row parse) (filter (claimed_keep minVal maxVal) rows)
            \<and> (\<forall>r\<in>set (filter (claimed_keep minVal maxVal) rows). parse (the (fst r)) \<noteq> None)"
  proof
    assume m: "materialized parse eng minVal maxVal = Some fs"
    from materialized_Some[OF m] ans have "materialize parse (arrow_table ?kept) = Inr fs"
      by auto
    from materialize_table[OF this]
    have f: "fs = map (feature_of_row parse) (filter (\<lambda>r. fst r \<noteq> None \<and> fst r \<noteq> Some []) ?kept)"
      and p: "\<forall>r\<in>set ?kept. fst r \<noteq> None \<and> fst r \<noteq> Some [] \<longrightarrow> parse (the (fst r)) \<noteq> None"
      by simp_all
    have "\<forall>r\<in>set (filter (claimed_keep minVal maxVal) rows). parse (the (fst r)) \<noteq> None"
    proof
      fix r assume r: "r \<in> set (filter (claimed_keep minVal maxVal) rows)"
      then have "r \<in> set ?kept" by (simp add: where_clause_iff)
      moreover from r have "fst r \<noteq> None" by (simp add: claimed_keep_def)
      moreover from r assms(2) have "fst r \<noteq> Some []" by simp
      ultimately show "parse (the (fst r)) \<noteq> None" using p by blast
    qed
    moreover from f eq have "fs = map (feature_of_row parse) (filter (claimed_keep minVal maxVal) rows)"
      by simp
    ultimately have "fs = map (feature_of_row parse) (filter (claimed_keep minVal maxVal) rows)"
      and "\<forall>r\<in>set (filter (claimed_keep minVal maxVal) rows). parse (the (fst r)) \<noteq> None"
      by simp_all
    with m show "data (fst (loadData parse eng minVal maxVal st)) = Some fs
            \<and> fs = map (feature_of_row parse) (filter (claimed_keep minVal maxVal) rows)
            \<and> (\<forall>r\<in>set (filter (claimed_keep minVal maxVal) rows). parse (the (fst r)) \<noteq> None)"
      by (simp add: loadData_data)
  qed
  have bwd: "connect_ok eng \<and> (\<forall>s\<in>set setup_statements. stmt_ok eng s) \<and> columns eng \<noteq> None
              \<and> (\<forall>r\<in>set (filter (claimed_keep minVal maxVal) rows). parse (the (fst r)) \<noteq> None) \<longrightarrow>
            materialized parse eng minVal maxVal
              = Some (map (feature_of_row parse) (filter (claimed_keep minVal maxVal) rows))"
  proof
    assume h: "connect_ok eng \<and> (\<forall>s\<in>set setup_statements. stmt_ok eng s) \<and> columns eng \<noteq> None
              \<and> (\<forall>r\<in>set (filter (claimed_keep minVal maxVal) rows). parse (the (fst r)) \<noteq> None)"
    then have "\<forall>r\<in>set ?kept. fst r \<noteq> None \<and> fst r \<noteq> Some [] \<longrightarrow> parse (the (fst r)) \<noteq> None"
      by (auto simp: where_clause_iff)
    from materialize_table_ok[OF this] eq
    have "materialize parse (arrow_table ?kept)
            = Inr (map (feature_of_row parse) (filter (claimed_keep minVal maxVal) rows))"
      by simp
    with h ans show "materialized parse eng minVal maxVal
              = Some (map (feature_of_row parse) (filter (claimed_keep minVal maxVal) rows))"
      using materialized_ok[of eng minVal maxVal "arrow_table ?kept" parse] by blast
  qed
  from fwd bwd show ?thesis by blast
qed

text \<open>
  A run over the sample dataset with the bounds 5 and 25: the row with attribute 2 and
  the row with null geometry are left out, the row with a null attribute is kept.
\<close>

theorem collection_is_filtered_rows_witness:
  "data (fst (loadData demo_parse (demo_engine demo_rows [(5, 25)]) 5 25 (app init_controller)))
     = Some [\<lparr>geometry = ''p2'', class_val = Val 7\<rparr>, \<lparr>geometry = ''p3'', class_val = Val (- 2147483648)\<rparr>]
   \<and> map (feature_of_row demo_parse) (filter (claimed_keep 5 25) demo_rows)
     = [\<lparr>geometry = ''p2'', class_val = Val 7\<rparr>, \<lparr>geometry = ''p3'', class_val = Val (- 2147483648)\<rparr>]"
proof -
  let ?eng = "demo_engine demo_rows [(5, 25)]"
  have ans: "select ?eng
             ([CHR 0x0A] @ ''          WITH base AS ('' @
              [CHR 0x0A] @ ''            SELECT ST_AsGeoJSON('' @ geomExpr (discovered_schema (demo_engine demo_rows [(5, 25)])) @ '') AS geojson, '' @ (''TRY_CAST('' @ [CHR 0x22] @ classCol (discovered_schema (demo_engine demo_rows [(5, 25)])) @ [CHR 0x22] @ '' AS INT)'') @ '' AS class_val'' @
              [CHR 0x0A] @ ''            FROM gp'' @
              [CHR 0x0A] @ ''          )'' @
              [CHR 0x0A] @ ''          SELECT geojson, class_val'' @
              [CHR 0x0A] @ ''          FROM base'' @
              [CHR 0x0A] @ ''          WHERE geojson IS NOT NULL'' @
              [CHR 0x0A] @ ''            AND (class_val IS NULL OR (class_val BETWEEN '' @ show_int 5 @ '' AND '' @ show_int 25 @ ''))'' @
              [CHR 0x0A] @ ''        '')
           = Some (arrow_table (filter (where_clause 5 25) demo_rows))"
    by code_simp
  have ne: "\<forall>r\<in>set demo_rows. fst r \<noteq> Some []" by code_simp
  have h: "connect_ok ?eng \<and> (\<forall>s\<in>set setup_statements. stmt_ok ?eng s) \<and> columns ?eng \<noteq> None
           \<and> (\<forall>r\<in>set (filter (claimed_keep 5 25) demo_rows). demo_parse (the (fst r)) \<noteq> None)"
    by code_simp
  have r: "map (feature_of_row demo_parse) (filter (claimed_keep 5 25) demo_rows)
     = [\<lparr>geometry = ''p2'', class_val = Val 7\<rparr>, \<lparr>geometry = ''p3'', class_val = Val (- 2147483648)\<rparr>]"
    by code_simp
  note c = collection_is_filtered_rows[OF ans ne, where parse = demo_parse and st = "app init_controller"
             and fs = "map (feature_of_row demo_parse) (filter (claimed_keep 5 25) demo_rows)"]
  from c h have "materialized demo_parse ?eng 5 25
      = Some (map (feature_of_row demo_parse) (filter (claimed_keep 5 25) demo_rows))"
    by blast
  with c have "data (fst (loadData demo_parse ?eng 5 25 (app init_controller)))
      = Some (map (feature_of_row demo_parse) (filter (claimed_keep 5 25) demo_rows))"
    by blast
  with r show ?thesis by simp
qed

text \<open>
  C7. Let the engine answer the main query, whose text is written out below with the
  bounds in their places, with the rows of \<open>base\<close> that satisfy its \<open>WHERE\<close> clause.
  With \<open>min > max\<close> the collection a run materializes and publishes holds only rows
  whose attribute is null: no row with a non-null attribute satisfies the clause. (The
  feature of such a row carries the number its slot of the attribute array holds.)
\<close>

theorem inverted_range_only_null:
  assumes "maxVal < minVal"
      and "select eng
             ([CHR 0x0A] @ ''          WITH base AS ('' @
              [CHR 0x0A] @ ''            SELECT ST_AsGeoJSON('' @ geomExpr (discovered_schema eng) @ '') AS geojson, '' @ (''TRY_CAST('' @ [CHR 0x22] @ classCol (discovered_schema eng) @ [CHR 0x22] @ '' AS INT)'') @ '' AS class_val'' @
              [CHR 0x0A] @ ''            FROM gp'' @
              [CHR 0x0A] @ ''          )'' @
              [CHR 0x0A] @ ''          SELECT geojson, class_val'' @
              [CHR 0x0A] @ ''          FROM base'' @
              [CHR 0x0A] @ ''          WHERE geojson IS NOT NULL'' @
              [CHR 0x0A] @ ''            AND (class_val IS NULL OR (class_val BETWEEN '' @ show_int minVal @ '' AND '' @ show_int maxVal @ ''))'' @
              [CHR 0x0A] @ ''        '')
           = Some (arrow_table (filter (where_clause minVal maxVal) rows))"
      and "materialized parse eng minVal maxVal = Some fs"
  shows "data (fst (loadData parse eng minVal maxVal st)) = Some fs
         \<and> fs = map (feature_of_row parse) (filter (rendered_keep minVal maxVal) rows)
         \<and> (\<forall>r\<in>set (filter (rendered_keep minVal maxVal) rows). is_null (snd r))
         \<and> (\<forall>r\<in>set rows. where_clause minVal maxVal r \<longrightarrow> is_null (snd r))"
proof -
  let ?kept = "filter (where_clause minVal maxVal) rows"
  from assms(2) have ans:
    "select eng (sql_text (geomExpr (discovered_schema eng)) (classExpr (discovered_schema eng))
                    minVal maxVal) = Some (arrow_table ?kept)"
    by (simp only: run_text)
  from materialized_Some[OF assms(3)] ans have "materialize parse (arrow_table ?kept) = Inr fs"
    by auto
  from materialize_table[OF this]
  have "fs = map (feature_of_row parse) (filter (\<lambda>r. fst r \<noteq> None \<and> fst r \<noteq> Some []) ?kept)"
    by simp
  moreover have "filter (\<lambda>r. fst r \<noteq> None \<and> fst r \<noteq> Some []) ?kept
                   = filter (rendered_keep minVal maxVal) rows"
    by (auto simp: rendered_keep_iff intro: filter_cong)
  ultimately have fs: "fs = map (feature_of_row parse) (filter (rendered_keep minVal maxVal) rows)"
    by simp
  have w: "\<forall>r\<in>set rows. where_clause minVal maxVal r \<longrightarrow> is_null (snd r)"
    using assms(1) by (auto simp: where_clause_def is_null_def split: sql_int.splits)
  then have "\<forall>r\<in>set (filter (rendered_keep minVal maxVal) rows). is_null (snd r)"
    by (simp add: rendered_keep_iff)
  with fs w assms(3) show ?thesis by (simp add: loadData_data)
qed

text \<open>
  A run over the sample dataset with the bounds 25 and 1: only the row with a null
  attribute is rendered.
\<close>

theorem inverted_range_only_null_witness:
  "data (fst (loadData demo_parse (demo_engine demo_rows [(25, 1)]) 25 1 (app init_controller)))
     = Some [\<lparr>geometry = ''p3'', class_val = Val (- 2147483648)\<rparr>]
   \<and> filter (rendered_keep 25 1) demo_rows = [(Some ''p3'', SqlNull (- 2147483648))]
   \<and> is_null (SqlNull (- 2147483648))"
proof -
  let ?eng = "demo_engine demo_rows [(25, 1)]"
  have lt: "(1::int) < 25" by simp
  have ans: "select ?eng
             ([CHR 0x0A] @ ''          WITH base AS ('' @
              [CHR 0x0A] @ ''            SELECT ST_AsGeoJSON('' @ geomExpr (discovered_schema (demo_engine demo_rows [(25, 1)])) @ '') AS geojson, '' @ (''TRY_CAST('' @ [CHR 0x22] @ classCol (discovered_schema (demo_engine demo_rows [(25, 1)])) @ [CHR 0x22] @ '' AS INT)'') @ '' AS class_val'' @
              [CHR 0x0A] @ ''            FROM gp'' @
              [CHR 0x0A] @ ''          )'' @
              [CHR 0x0A] @ ''          SELECT geojson, class_val'' @
              [CHR 0x0A] @ ''          FROM base'' @
              [CHR 0x0A] @ ''          WHERE geojson IS NOT NULL'' @
              [CHR 0x0A] @ ''            AND (class_val IS NULL OR (class_val BETWEEN '' @ show_int 25 @ '' AND '' @ show_int 1 @ ''))'' @
              [CHR 0x0A] @ ''        '')
           = Some (arrow_table (filter (where_clause 25 1) demo_rows))"
    by code_simp
  have m: "materialized demo_parse ?eng 25 1 = Some [\<lparr>geometry = ''p3'', class_val = Val (- 2147483648)\<rparr>]"
    by code_simp
  have k: "filter (rendered_keep 25 1) demo_rows = [(Some ''p3'', SqlNull (- 2147483648))]"
    by code_simp
  from inverted_range_only_null[OF lt ans m, of "app init_controller"] k show ?thesis by simp
qed

text \<open>
  C5. When the geometry array that the engine returns for the run's main query holds,
  at some index, a non-empty text that does not parse, the run materializes nothing,
  ends with an error, and leaves the published collection as it was.
\<close>

theorem parse_failure_aborts_run:
  assumes "select eng (sql_text (geomExpr (discovered_schema eng)) (classExpr (discovered_schema eng))
                          minVal maxVal) = Some res"
      and "geojson_child res = Some g"
      and "j < length g"
      and "g ! j = Val s"
      and "s \<noteq> []"
      and "parse s = None"
  shows "materialized parse eng minVal maxVal = None
         \<and> data (fst (loadData parse eng minVal maxVal st)) = data st
         \<and> snd (snd (loadData parse eng minVal maxVal st)) \<noteq> None"
proof -
  have none: "materialized parse eng minVal maxVal = None"
  proof (cases "materialized parse eng minVal maxVal")
    case None
    then show ?thesis .
  next
    case (Some fs)
    from materialized_Some[OF Some] assms(1) have "materialize parse res = Inr fs"
      by auto
    with assms(2) have "for_loop parse g (or_empty (class_val_child res)) 0 [] = Inr fs"
      by (simp add: materialize_def or_empty_def)
    from for_loop_Inr[OF this]
    have ok: "\<forall>i\<in>set (kept_indices g 0). parse (text_of (g ! i)) \<noteq> None"
      by simp
    from assms(3,4,5) have "j \<in> set (kept_indices g 0)"
      by (simp add: kept_indices_def falsy_def)
    with ok have "parse (text_of (g ! j)) \<noteq> None" by blast
    with assms(4,6) have False by (simp add: text_of_def)
    then show ?thesis ..
  qed
  then show ?thesis by (simp add: loadData_data loadData_error)
qed

text \<open>
  A run over a dataset whose second row does not parse, started with a collection
  already published.
\<close>

theorem parse_failure_aborts_run_witness:
  "data (fst (loadData demo_parse (demo_engine demo_rows_bad [(1, 25)]) 1 25
             ((app init_controller)\<lparr>data := Some [\<lparr>geometry = ''old'', class_val = Val 9\<rparr>]\<rparr>)))
     = Some [\<lparr>geometry = ''old'', class_val = Val 9\<rparr>]
   \<and> materialized demo_parse (demo_engine demo_rows_bad [(1, 25)]) 1 25 = None"
proof -
  let ?eng = "demo_engine demo_rows_bad [(1, 25)]"
  let ?res = "arrow_table demo_rows_bad"
  let ?g = "[Val ''p1'', Val ''bad'', Val ''p3'']"
  have sel: "select ?eng (sql_text (geomExpr (discovered_schema ?eng)) (classExpr (discovered_schema ?eng))
                            1 25) = Some ?res"
    by code_simp
  have g: "geojson_child ?res = Some ?g" by code_simp
  have j: "(1::nat) < length ?g" by simp
  have c: "?g ! 1 = Val ''bad''" by simp
  have ne: "''bad'' \<noteq> []" by simp
  have p: "demo_parse ''bad'' = None" by code_simp
  from parse_failure_aborts_run[where parse = demo_parse and s = "''bad''" and eng = ?eng
         and st = "(app init_controller)\<lparr>data := Some [\<lparr>geometry = ''old'', class_val = Val 9\<rparr>]\<rparr>",
         OF sel g j c ne p]
  show ?thesis by simp
qed

text \<open>
  C8. The events of a run are: nothing when \<open>connect\<close> fails, and otherwise one
  \<open>Connect\<close>, then the queries of the body, then \<open>Close\<close>, whether the body succeeds
  or fails at a statement, a query or a parse; the body itself neither connects nor
  closes. So a run opens at most one connection and closes as many as it opens, last.
\<close>

theorem one_connection_always_closed:
  "fst (snd (loadData parse eng minVal maxVal st))
      = (if connect_ok eng then Connect # snd (try_block parse eng minVal maxVal) @ [Close] else [])
   \<and> (\<forall>e\<in>set (snd (try_block parse eng minVal maxVal)). e \<noteq> Connect \<and> e \<noteq> Close)
   \<and> length (filter (\<lambda>e. e = Connect) (fst (snd (loadData parse eng minVal maxVal st)))) \<le> 1
   \<and> length (filter (\<lambda>e. e = Close) (fst (snd (loadData parse eng minVal maxVal st))))
       = length (filter (\<lambda>e. e = Connect) (fst (snd (loadData parse eng minVal maxVal st))))"
proof -
  have q: "\<forall>e\<in>set (snd (try_block parse eng minVal maxVal)). e \<noteq> Connect \<and> e \<noteq> Close"
    using try_block_trace[of parse eng minVal maxVal] by auto
  then have "filter (\<lambda>e. e = Connect) (snd (try_block parse eng minVal maxVal)) = []"
    and "filter (\<lambda>e. e = Close) (snd (try_block parse eng minVal maxVal)) = []"
    by (simp_all add: filter_empty_conv)
  with q show ?thesis by (simp add: loadData_trace)
qed

text \<open>
  Runs that fail at a statement, at a parse, and at \<open>connect\<close>.
\<close>

theorem one_connection_always_closed_witness:
  "fst (snd (loadData demo_parse failing_engine 1 25 (app init_controller)))
     = [Connect, Query ''INSTALL httpfs;'', Query ''LOAD httpfs;'', Query ''INSTALL spatial;'', Close]
   \<and> fst (snd (loadData demo_parse (demo_engine demo_rows_bad [(1, 25)]) 1 25 (app init_controller)))
     = Connect # snd (try_block demo_parse (demo_engine demo_rows_bad [(1, 25)]) 1 25) @ [Close]
   \<and> fst (snd (loadData demo_parse ((demo_engine demo_rows [(1, 25)])\<lparr>connect_ok := False\<rparr>) 1 25 (app init_controller))) = []"
proof -
  have a: "snd (try_block demo_parse failing_engine 1 25)
      = [Query ''INSTALL httpfs;'', Query ''LOAD httpfs;'', Query ''INSTALL spatial;'']"
    by code_simp
  have b: "connect_ok failing_engine" by code_simp
  have c: "connect_ok (demo_engine demo_rows_bad [(1, 25)])" by code_simp
  have d: "\<not> connect_ok ((demo_engine demo_rows [(1, 25)])\<lparr>connect_ok := False\<rparr>)" by simp
  from one_connection_always_closed[of demo_parse failing_engine 1 25 "app init_controller"]
       one_connection_always_closed[of demo_parse "demo_engine demo_rows_bad [(1, 25)]" 1 25 "app init_controller"]
       one_connection_always_closed[of demo_parse "(demo_engine demo_rows [(1, 25)])\<lparr>connect_ok := False\<rparr>" 1 25 "app init_controller"]
       a b c d
  show ?thesis by simp
qed

text \<open>
  C4. The engine becomes ready and starts run A with the bounds 1 and 25; the minimum
  is set to 5, which starts run B. When B settles and then A, the published collection
  is A's (it holds the feature with attribute 2) while the minimum is 5; when A settles
  alone, A's collection is published too. After B alone the collection is B's.
\<close>

theorem superseded_run_is_published:
  "data (app (run_events demo_parse init_controller
                [BootDone (demo_engine demo_rows [(1, 25), (5, 25)]), SetMinClass 5, Settle 1, Settle 0]))
     = Some [\<lparr>geometry = ''p1'', class_val = Val 2\<rparr>,
             \<lparr>geometry = ''p2'', class_val = Val 7\<rparr>,
             \<lparr>geometry = ''p3'', class_val = Val (- 2147483648)\<rparr>]
   \<and> minClass (app (run_events demo_parse init_controller
                [BootDone (demo_engine demo_rows [(1, 25), (5, 25)]), SetMinClass 5, Settle 1, Settle 0])) = 5
   \<and> data (app (run_events demo_parse init_controller
                [BootDone (demo_engine demo_rows [(1, 25), (5, 25)]), SetMinClass 5, Settle 1]))
     = Some [\<lparr>geometry = ''p2'', class_val = Val 7\<rparr>,
             \<lparr>geometry = ''p3'', class_val = Val (- 2147483648)\<rparr>]
   \<and> data (app (run_events demo_parse init_controller
                [BootDone (demo_engine demo_rows [(1, 25), (5, 25)]), SetMinClass 5, Settle 0]))
     = Some [\<lparr>geometry = ''p1'', class_val = Val 2\<rparr>,
             \<lparr>geometry = ''p2'', class_val = Val 7\<rparr>,
             \<lparr>geometry = ''p3'', class_val = Val (- 2147483648)\<rparr>]"
  by code_simp

end
